theory Spec2Isabelle
  imports Main "HOL-Library.Sublist"
begin

section \<open>Python values the client handles\<close>

text \<open>
  The model follows \<^verbatim>\<open>sessh/client.py\<close>. Strings are \<^typ>\<open>string\<close>, Python's
  unbounded \<^verbatim>\<open>int\<close> is \<^typ>\<open>int\<close>, an \<^verbatim>\<open>Optional[T]\<close> is \<^typ>\<open>'a option\<close> with
  \<^term>\<open>None\<close> for Python's \<^verbatim>\<open>None\<close>, and a \<^verbatim>\<open>dict\<close> of strings is a map. Names are the
  source's, but for \<open>run_sessh\<close> (\<^verbatim>\<open>_run_sessh\<close>), the field \<open>alias'\<close> (\<^verbatim>\<open>alias\<close>) and the keyword
  argument \<open>text_mode\<close> (\<^verbatim>\<open>text\<close>), which Isabelle does not accept as they are.
\<close>

type_synonym dict = "string \<rightharpoonup> string"

text \<open>Exceptions are values: every \<^verbatim>\<open>raise\<close> of the source is an \<^term>\<open>Inl\<close> result.
  \<^verbatim>\<open>OSError\<close> stands for what \<^verbatim>\<open>subprocess.run\<close> itself raises when the child cannot be
  started; \<^verbatim>\<open>TypeError\<close> is what \<^verbatim>\<open>json.loads(None)\<close> raises.\<close>

datatype py_error = RuntimeError string | OSError string | TypeError

text \<open>Truthiness, as \<^verbatim>\<open>if x:\<close>, \<^verbatim>\<open>not x\<close> and \<^verbatim>\<open>x or y\<close> test it: \<^verbatim>\<open>None\<close>, the empty
  string and the integer zero are false.\<close>

fun truthy_str :: "string option \<Rightarrow> bool" where
  "truthy_str None = False"
| "truthy_str (Some s) = (s \<noteq> [])"

fun truthy_int :: "int option \<Rightarrow> bool" where
  "truthy_int None = False"
| "truthy_int (Some n) = (n \<noteq> 0)"

text \<open>\<^verbatim>\<open>x or d\<close> for an optional string \<^verbatim>\<open>x\<close> and a string \<^verbatim>\<open>d\<close>.\<close>

fun py_or :: "string option \<Rightarrow> string \<Rightarrow> string" where
  "py_or None d = d"
| "py_or (Some s) d = (if s \<noteq> [] then s else d)"

subsection \<open>\<^verbatim>\<open>str\<close> of an integer\<close>

definition digit_char :: "nat \<Rightarrow> char" where
  "digit_char d = ''0123456789'' ! d"

fun str_nat :: "nat \<Rightarrow> string" where
  "str_nat n = (if n < 10 then [digit_char n] else str_nat (n div 10) @ [digit_char (n mod 10)])"

declare str_nat.simps [simp del]

definition str_int :: "int \<Rightarrow> string" where
  "str_int i = (if i < 0 then CHR ''-'' # str_nat (nat (- i)) else str_nat (nat i))"

text \<open>Reading a decimal numeral back, to say what \<^term>\<open>str_int\<close> renders.\<close>

definition digit_val :: "char \<Rightarrow> nat" where
  "digit_val c = of_char c - 48"

definition nat_of_digits :: "string \<Rightarrow> nat" where
  "nat_of_digits ds = foldl (\<lambda>acc c. 10 * acc + digit_val c) 0 ds"

definition is_digit :: "char \<Rightarrow> bool" where
  "is_digit c = (c \<in> set ''0123456789'')"

fun int_of_str :: "string \<Rightarrow> int" where
  "int_of_str [] = 0"
| "int_of_str (c # cs) = (if c = CHR ''-'' then - int (nat_of_digits cs) else int (nat_of_digits (c # cs)))"

subsection \<open>Substrings\<close>

text \<open>\<^verbatim>\<open>needle in haystack\<close> on strings.\<close>

fun contains :: "string \<Rightarrow> string \<Rightarrow> bool" where
  "contains [] needle = (needle = [])"
| "contains (c # cs) needle = (prefix needle (c # cs) \<or> contains cs needle)"

section \<open>The client object and the process state\<close>

record SesshClient =
  alias' :: string
  host :: string
  port :: "int option"
  sessh_bin :: string
  identity :: "string option"
  proxyjump :: "string option"

text \<open>\<^verbatim>\<open>__init__\<close>: \<^verbatim>\<open>self.sessh_bin = sessh_bin or "sessh"\<close>, the other fields as given.\<close>

definition init :: "string \<Rightarrow> string \<Rightarrow> int option \<Rightarrow> string option \<Rightarrow> string option \<Rightarrow>
    string option \<Rightarrow> SesshClient" where
  "init alias'' host' port' sessh_bin' identity' proxyjump' =
     \<lparr>alias' = alias'', host = host', port = port', sessh_bin = py_or sessh_bin' ''sessh'',
      identity = identity', proxyjump = proxyjump'\<rparr>"

text \<open>
  Dictionaries are objects: a variable holds a reference, and \<^verbatim>\<open>env[k] = v\<close> changes the
  object every alias of it sees. \<^verbatim>\<open>os.environ\<close> lives at the reference \<^term>\<open>Environ\<close>;
  \<^verbatim>\<open>.copy()\<close> allocates a new object.
\<close>

datatype ref = Environ | Obj nat

text \<open>One call of \<^verbatim>\<open>subprocess.run\<close>: the argument vector, the contents of the \<^verbatim>\<open>env\<close>
  dictionary at the moment of the call, and the keyword arguments.\<close>

record invocation =
  argv :: "string list"
  env :: dict
  capture_output :: bool
  text_mode :: bool
  check :: bool

text \<open>What a child that ran did: its exit code and what it wrote.\<close>

record process_exit =
  exit_code :: int
  out :: string
  err :: string

text \<open>\<^verbatim>\<open>subprocess.CompletedProcess\<close>: \<^verbatim>\<open>stdout\<close> and \<^verbatim>\<open>stderr\<close> are \<^verbatim>\<open>None\<close> unless they
  were captured.\<close>

record CompletedProcess =
  returncode :: int
  stdout :: "string option"
  stderr :: "string option"

text \<open>The state a method runs in: the client object \<^verbatim>\<open>self\<close>, the dictionary objects
  (with \<^verbatim>\<open>os.environ\<close> among them), the allocation counter, and the log of the child
  processes started so far.\<close>

record state =
  self :: SesshClient
  dicts :: "ref \<Rightarrow> dict"
  next_obj :: nat
  spawned :: "invocation list"

definition dict_copy :: "ref \<Rightarrow> state \<Rightarrow> ref \<times> state" where
  "dict_copy r s =
     (Obj (next_obj s),
      s\<lparr>dicts := (dicts s)(Obj (next_obj s) := dicts s r), next_obj := Suc (next_obj s)\<rparr>)"

definition dict_setitem :: "ref \<Rightarrow> string \<Rightarrow> string \<Rightarrow> state \<Rightarrow> state" where
  "dict_setitem r k v s = s\<lparr>dicts := (dicts s)(r := (dicts s r)(k \<mapsto> v))\<rparr>"

text \<open>
  \<^verbatim>\<open>subprocess.run(args, env=env, ...)\<close>. The operating system and the \<^verbatim>\<open>sessh\<close> binary are
  the parameter \<open>spawn\<close>: for an invocation, either the error raised because no child
  could be started, or what the child did. With \<^verbatim>\<open>check=False\<close> a nonzero exit code is
  not an exception.
\<close>

definition subprocess_run :: "(invocation \<Rightarrow> py_error + process_exit) \<Rightarrow> invocation \<Rightarrow> state \<Rightarrow>
    (py_error + CompletedProcess) \<times> state" where
  "subprocess_run spawn call s =
     (let s' = s\<lparr>spawned := spawned s @ [call]\<rparr> in
      case spawn call of
        Inl e \<Rightarrow> (Inl e, s')
      | Inr p \<Rightarrow>
          (Inr \<lparr>returncode = exit_code p,
                stdout = (if capture_output call then Some (out p) else None),
                stderr = (if capture_output call then Some (err p) else None)\<rparr>, s'))"

section \<open>The methods of \<^verbatim>\<open>SesshClient\<close>\<close>

text \<open>
  \<^verbatim>\<open>_run_sessh(self, cmd, *args, **kwargs)\<close>, statement by statement; the keyword
  arguments are accepted and never read. \<^verbatim>\<open>json.loads\<close> is the parameter \<open>loads\<close>, with
  \<^term>\<open>None\<close> for \<^verbatim>\<open>JSONDecodeError\<close>. Where \<^term>\<open>the\<close> is applied, the test before it has
  made sure of a value.
\<close>

definition run_sessh :: "(invocation \<Rightarrow> py_error + process_exit) \<Rightarrow> (string \<Rightarrow> 'j option) \<Rightarrow>
    string \<Rightarrow> string list \<Rightarrow> state \<Rightarrow> (py_error + 'j) \<times> state" where
  "run_sessh spawn loads cmd args s0 =
     (let (env_ref, s1) = dict_copy Environ s0;
          s2 = dict_setitem env_ref ''SESSH_JSON'' ''1'' s1;
          s3 = (if truthy_str (identity (self s2))
                then dict_setitem env_ref ''SESSH_IDENTITY'' (the (identity (self s2))) s2
                else s2);
          s4 = (if truthy_str (proxyjump (self s3))
                then dict_setitem env_ref ''SESSH_PROXYJUMP'' (the (proxyjump (self s3))) s3
                else s3);
          sessh_args = [sessh_bin (self s4), cmd, alias' (self s4), host (self s4)];
          sessh_args = (if truthy_int (port (self s4))
                        then sessh_args @ [str_int (the (port (self s4)))]
                        else sessh_args);
          sessh_args = sessh_args @ args;
          (res, s5) = subprocess_run spawn
             \<lparr>argv = sessh_args, env = dicts s4 env_ref, capture_output = True,
              text_mode = True, check = False\<rparr> s4
      in case res of
           Inl e \<Rightarrow> (Inl e, s5)
         | Inr result \<Rightarrow>
             if returncode result \<noteq> 0 \<and> \<not> truthy_str (stdout result)
             then (Inl (RuntimeError (''sessh '' @ cmd @ '' failed: '' @
                     py_or (stderr result) (''exit code '' @ str_int (returncode result)))), s5)
             else (case stdout result of
                     None \<Rightarrow> (Inl TypeError, s5)
                   | Some doc \<Rightarrow>
                       (case loads doc of
                          Some j \<Rightarrow> (Inr j, s5)
                        | None \<Rightarrow> (Inl (RuntimeError (''Invalid JSON from sessh: '' @ doc)), s5))))"

definition "open" :: "(invocation \<Rightarrow> py_error + process_exit) \<Rightarrow> (string \<Rightarrow> 'j option) \<Rightarrow>
    state \<Rightarrow> (py_error + 'j) \<times> state" where
  "open spawn loads = run_sessh spawn loads ''open'' []"

definition run :: "(invocation \<Rightarrow> py_error + process_exit) \<Rightarrow> (string \<Rightarrow> 'j option) \<Rightarrow>
    string \<Rightarrow> state \<Rightarrow> (py_error + 'j) \<times> state" where
  "run spawn loads command = run_sessh spawn loads ''run'' [''--'', command]"

text \<open>\<^verbatim>\<open>logs(self, lines=300)\<close>: the argument is \<^term>\<open>None\<close> when the caller leaves it out.\<close>

definition logs :: "(invocation \<Rightarrow> py_error + process_exit) \<Rightarrow> (string \<Rightarrow> 'j option) \<Rightarrow>
    int option \<Rightarrow> state \<Rightarrow> (py_error + 'j) \<times> state" where
  "logs spawn loads lines_arg =
     (let lines = (case lines_arg of None \<Rightarrow> 300 | Some n \<Rightarrow> n) in
      run_sessh spawn loads ''logs'' [str_int lines])"

definition status :: "(invocation \<Rightarrow> py_error + process_exit) \<Rightarrow> (string \<Rightarrow> 'j option) \<Rightarrow>
    state \<Rightarrow> (py_error + 'j) \<times> state" where
  "status spawn loads = run_sessh spawn loads ''status'' []"

definition close :: "(invocation \<Rightarrow> py_error + process_exit) \<Rightarrow> (string \<Rightarrow> 'j option) \<Rightarrow>
    state \<Rightarrow> (py_error + 'j) \<times> state" where
  "close spawn loads = run_sessh spawn loads ''close'' []"

text \<open>\<^verbatim>\<open>attach(self) -> None\<close>: no \<^verbatim>\<open>SESSH_JSON\<close>, no \<^verbatim>\<open>capture_output\<close>, and the
  \<^verbatim>\<open>CompletedProcess\<close> is dropped.\<close>

definition attach :: "(invocation \<Rightarrow> py_error + process_exit) \<Rightarrow> state \<Rightarrow> (py_error + unit) \<times> state" where
  "attach spawn s0 =
     (let (env_ref, s1) = dict_copy Environ s0;
          s2 = (if truthy_str (identity (self s1))
                then dict_setitem env_ref ''SESSH_IDENTITY'' (the (identity (self s1))) s1
                else s1);
          s3 = (if truthy_str (proxyjump (self s2))
                then dict_setitem env_ref ''SESSH_PROXYJUMP'' (the (proxyjump (self s2))) s2
                else s2);
          sessh_args = [sessh_bin (self s3), ''attach'', alias' (self s3), host (self s3)];
          sessh_args = (if truthy_int (port (self s3))
                        then sessh_args @ [str_int (the (port (self s3)))]
                        else sessh_args);
          (res, s4) = subprocess_run spawn
             \<lparr>argv = sessh_args, env = dicts s3 env_ref, capture_output = False,
              text_mode = False, check = False\<rparr> s3
      in case res of
           Inl e \<Rightarrow> (Inl e, s4)
         | Inr result \<Rightarrow> (Inr (), s4))"

section \<open>Vocabulary for the properties\<close>

text \<open>The five operations that go through \<^verbatim>\<open>_run_sessh\<close>, to speak of all of them at once.\<close>

datatype operation = Open | Run string | Logs "int option" | Status | Close

fun perform :: "(invocation \<Rightarrow> py_error + process_exit) \<Rightarrow> (string \<Rightarrow> 'j option) \<Rightarrow>
    operation \<Rightarrow> state \<Rightarrow> (py_error + 'j) \<times> state" where
  "perform spawn loads Open = open spawn loads"
| "perform spawn loads (Run command) = run spawn loads command"
| "perform spawn loads (Logs lines_arg) = logs spawn loads lines_arg"
| "perform spawn loads Status = status spawn loads"
| "perform spawn loads Close = close spawn loads"

fun op_name :: "operation \<Rightarrow> string" where
  "op_name Open = ''open''"
| "op_name (Run command) = ''run''"
| "op_name (Logs lines_arg) = ''logs''"
| "op_name Status = ''status''"
| "op_name Close = ''close''"

text \<open>What each method passes as \<^verbatim>\<open>*args\<close> (\<open>perform_run_sessh\<close> below).\<close>

fun op_args :: "operation \<Rightarrow> string list" where
  "op_args Open = []"
| "op_args (Run command) = [''--'', command]"
| "op_args (Logs lines_arg) = [str_int (case lines_arg of None \<Rightarrow> 300 | Some n \<Rightarrow> n)]"
| "op_args Status = []"
| "op_args Close = []"

text \<open>The child process a call started: the last entry of the log it leaves.\<close>

definition started_by :: "'r \<times> state \<Rightarrow> invocation" where
  "started_by r = last (spawned (snd r))"

text \<open>The optional \<^verbatim>\<open>[port]\<close> of the command line.\<close>

definition port_args :: "SesshClient \<Rightarrow> string list" where
  "port_args c = (case port c of None \<Rightarrow> [] | Some p \<Rightarrow> if p = 0 then [] else [str_int p])"

text \<open>A dictionary with a variable added when its value is a non-empty string.\<close>

definition with_var :: "string \<Rightarrow> string option \<Rightarrow> dict \<Rightarrow> dict" where
  "with_var k v m = (case v of None \<Rightarrow> m | Some x \<Rightarrow> if x \<noteq> [] then m(k \<mapsto> x) else m)"

text \<open>The environments and the invocations the methods make, in closed form
  (\<open>run_sessh_state\<close> and \<open>attach_state\<close> below prove that they are).\<close>

definition json_env :: "SesshClient \<Rightarrow> dict \<Rightarrow> dict" where
  "json_env c e =
     with_var ''SESSH_PROXYJUMP'' (proxyjump c)
       (with_var ''SESSH_IDENTITY'' (identity c) (e(''SESSH_JSON'' \<mapsto> ''1'')))"

definition json_call :: "state \<Rightarrow> string \<Rightarrow> string list \<Rightarrow> invocation" where
  "json_call s cmd args =
     \<lparr>argv = [sessh_bin (self s), cmd, alias' (self s), host (self s)] @ port_args (self s) @ args,
      env = json_env (self s) (dicts s Environ),
      capture_output = True, text_mode = True, check = False\<rparr>"

definition attach_env :: "SesshClient \<Rightarrow> dict \<Rightarrow> dict" where
  "attach_env c e =
     with_var ''SESSH_PROXYJUMP'' (proxyjump c) (with_var ''SESSH_IDENTITY'' (identity c) e)"

definition attach_call :: "state \<Rightarrow> invocation" where
  "attach_call s =
     \<lparr>argv = [sessh_bin (self s), ''attach'', alias' (self s), host (self s)] @ port_args (self s),
      env = attach_env (self s) (dicts s Environ),
      capture_output = False, text_mode = False, check = False\<rparr>"

subsection \<open>Concrete inputs\<close>

text \<open>The client of \<^verbatim>\<open>tests/test_client.py\<close>, and one with every option given.\<close>

definition test_client :: SesshClient where
  "test_client = init ''test'' ''user@example.com'' None None None None"

definition full_client :: SesshClient where
  "full_client = init ''box'' ''root@localhost'' (Some 2222) (Some ''/opt/sessh'')
     (Some ''/home/u/.ssh/id_ed25519'') (Some ''jump@bastion'')"

text \<open>A state before any call: \<^verbatim>\<open>os.environ\<close> holds \<open>e\<close>, nothing else is allocated.\<close>

definition fresh_state :: "SesshClient \<Rightarrow> dict \<Rightarrow> state" where
  "fresh_state c e =
     \<lparr>self = c, dicts = (\<lambda>r. case r of Environ \<Rightarrow> e | Obj n \<Rightarrow> Map.empty), next_obj = 0,
      spawned = []\<rparr>"

text \<open>A child that exits with the given code after writing the given stdout and stderr.\<close>

definition child :: "int \<Rightarrow> string \<Rightarrow> string \<Rightarrow> invocation \<Rightarrow> py_error + process_exit" where
  "child code written_out written_err call =
     Inr \<lparr>exit_code = code, out = written_out, err = written_err\<rparr>"

text \<open>Parsed JSON, and a decoder that agrees with \<^verbatim>\<open>json.loads\<close> on the documents used
  below: the two objects, the empty document and the word \<^verbatim>\<open>oops\<close>.\<close>

datatype json = JNull | JBool bool | JNumber int | JString string | JArray "json list"
  | JObject "(string \<times> json) list"

definition sample_loads :: "string \<Rightarrow> json option" where
  \<open>sample_loads doc =
     (if doc = ''{"ok":true,"op":"open"}''
      then Some (JObject [(''ok'', JBool True), (''op'', JString ''open'')])
      else if doc = ''{"ok":false,"op":"run"}''
      then Some (JObject [(''ok'', JBool False), (''op'', JString ''run'')])
      else None)\<close>

section \<open>The completion protocol of the engine\<close>

text \<open>
  The engine behind the \<^verbatim>\<open>sessh\<close> binary is not among the sources: \<^verbatim>\<open>client.py\<close> passes the
  command after \<^verbatim>\<open>--\<close> and returns the JSON the binary prints. What follows is section 4.3
  of the specification. A captured buffer is the list of its lines.
\<close>

text \<open>Modelled from the spec: the engine's test for the completion marker, absent from the
  sources. ``Only an exact, structurally-anchored match (marker at start of its own line,
  immediately followed by the expected digit pattern) counts as the real completion
  marker'': the line is the marker followed by one or more digits and nothing else.\<close>

definition marker_line :: "string \<Rightarrow> string \<Rightarrow> bool" where
  "marker_line marker line =
     (prefix marker line \<and> drop (length marker) line \<noteq> [] \<and>
      list_all is_digit (drop (length marker) line))"

text \<open>Modelled from the spec: step 5 of the engine's completion protocol, absent from the
  sources. ``Split the captured text at the marker line; everything before it is the
  command's output; the digits following the marker are the exit code. Strip the marker
  line itself from returned output.'' \<^term>\<open>None\<close> when no line is the marker line.\<close>

fun split_at_marker :: "string \<Rightarrow> string list \<Rightarrow> (string list \<times> nat) option" where
  "split_at_marker marker [] = None"
| "split_at_marker marker (line # rest) =
     (if marker_line marker line
      then Some ([], nat_of_digits (drop (length marker) line))
      else (case split_at_marker marker rest of
              None \<Rightarrow> None
            | Some (output, code) \<Rightarrow> Some (line # output, code)))"

text \<open>Modelled from the spec: the engine's \<^verbatim>\<open>CommandTimeout\<close>, absent from the sources.\<close>

datatype engine_error = CommandTimeout

text \<open>Modelled from the spec: steps 4 and 6 of the engine's completion protocol, absent from
  the sources. ``Poll capture at a fixed interval until the marker line appears in the
  captured buffer or an overall timeout elapses'': the argument lists what each poll inside
  the time budget captures, in order.\<close>

fun await_completion :: "string \<Rightarrow> string list list \<Rightarrow> engine_error + string list \<times> nat" where
  "await_completion marker [] = Inl CommandTimeout"
| "await_completion marker (captured # later) =
     (case split_at_marker marker captured of
        Some done \<Rightarrow> Inr done
      | None \<Rightarrow> await_completion marker later)"

section \<open>Basic facts about the model\<close>

lemma truthy_str_cases:
  "truthy_str v \<Longrightarrow> with_var k v m = m(k \<mapsto> the v)"
  "\<not> truthy_str v \<Longrightarrow> with_var k v m = m"
  by (cases v; simp add: with_var_def)+

lemma truthy_int_cases:
  "truthy_int (port c) \<Longrightarrow> port_args c = [str_int (the (port c))]"
  "\<not> truthy_int (port c) \<Longrightarrow> port_args c = []"
  by (cases "port c"; simp add: port_args_def)+

lemma dict_setitem_simps [simp]:
  "self (dict_setitem r k v s) = self s"
  "spawned (dict_setitem r k v s) = spawned s"
  "next_obj (dict_setitem r k v s) = next_obj s"
  "dicts (dict_setitem r k v s) = (dicts s)(r := (dicts s r)(k \<mapsto> v))"
  by (simp_all add: dict_setitem_def)

text \<open>\<^verbatim>\<open>_run_sessh\<close> and \<^verbatim>\<open>attach\<close> in closed form: one new dictionary, one child, and
  the result read off the child's exit. The three \<^verbatim>\<open>if\<close> statements give eight paths, and
  the outcome of starting the child two more.\<close>

lemma run_sessh_unfold:
  "run_sessh spawn loads cmd args s =
     (let s' = s\<lparr>dicts := (dicts s)(Obj (next_obj s) := json_env (self s) (dicts s Environ)),
                 next_obj := Suc (next_obj s),
                 spawned := spawned s @ [json_call s cmd args]\<rparr>
      in case spawn (json_call s cmd args) of
        Inl e \<Rightarrow> (Inl e, s')
      | Inr p \<Rightarrow>
          if exit_code p \<noteq> 0 \<and> out p = []
          then (Inl (RuntimeError (''sessh '' @ cmd @ '' failed: '' @
                 (if err p \<noteq> [] then err p else ''exit code '' @ str_int (exit_code p)))), s')
          else (case loads (out p) of
                  Some j \<Rightarrow> (Inr j, s')
                | None \<Rightarrow> (Inl (RuntimeError (''Invalid JSON from sessh: '' @ out p)), s')))"
  by (cases "truthy_str (identity (self s))"; cases "truthy_str (proxyjump (self s))";
      cases "truthy_int (port (self s))"; cases "spawn (json_call s cmd args)")
    (simp_all add: run_sessh_def dict_copy_def subprocess_run_def Let_def json_call_def
      json_env_def truthy_str_cases truthy_int_cases split: option.splits)

lemma attach_unfold:
  "attach spawn s =
     (let s' = s\<lparr>dicts := (dicts s)(Obj (next_obj s) := attach_env (self s) (dicts s Environ)),
                 next_obj := Suc (next_obj s),
                 spawned := spawned s @ [attach_call s]\<rparr>
      in case spawn (attach_call s) of
        Inl e \<Rightarrow> (Inl e, s')
      | Inr p \<Rightarrow> (Inr (), s'))"
  by (cases "truthy_str (identity (self s))"; cases "truthy_str (proxyjump (self s))";
      cases "truthy_int (port (self s))"; cases "spawn (attach_call s)")
    (simp_all add: attach_def dict_copy_def subprocess_run_def Let_def attach_call_def
      attach_env_def truthy_str_cases truthy_int_cases)

lemma run_sessh_state:
  "snd (run_sessh spawn loads cmd args s) =
     s\<lparr>dicts := (dicts s)(Obj (next_obj s) := json_env (self s) (dicts s Environ)),
       next_obj := Suc (next_obj s),
       spawned := spawned s @ [json_call s cmd args]\<rparr>"
  by (simp add: run_sessh_unfold Let_def split: sum.splits option.splits)

lemma attach_state:
  "snd (attach spawn s) =
     s\<lparr>dicts := (dicts s)(Obj (next_obj s) := attach_env (self s) (dicts s Environ)),
       next_obj := Suc (next_obj s),
       spawned := spawned s @ [attach_call s]\<rparr>"
  by (simp add: attach_unfold Let_def split: sum.splits)

lemma run_sessh_result:
  "fst (run_sessh spawn loads cmd args s) =
     (case spawn (json_call s cmd args) of
        Inl e \<Rightarrow> Inl e
      | Inr p \<Rightarrow>
          if exit_code p \<noteq> 0 \<and> out p = []
          then Inl (RuntimeError (''sessh '' @ cmd @ '' failed: '' @
                 (if err p \<noteq> [] then err p else ''exit code '' @ str_int (exit_code p))))
          else (case loads (out p) of
                  Some j \<Rightarrow> Inr j
                | None \<Rightarrow> Inl (RuntimeError (''Invalid JSON from sessh: '' @ out p))))"
  by (simp add: run_sessh_unfold Let_def split: sum.splits option.splits)

lemma attach_result:
  "fst (attach spawn s) = (case spawn (attach_call s) of Inl e \<Rightarrow> Inl e | Inr p \<Rightarrow> Inr ())"
  by (simp add: attach_unfold Let_def split: sum.splits)

lemma perform_run_sessh: "perform spawn loads op = run_sessh spawn loads (op_name op) (op_args op)"
  by (cases op) (simp_all add: open_def run_def logs_def status_def close_def fun_eq_iff)

lemma started_by_perform: "started_by (perform spawn loads op s) = json_call s (op_name op) (op_args op)"
  by (simp add: started_by_def perform_run_sessh run_sessh_state)

lemma started_by_attach: "started_by (attach spawn s) = attach_call s"
  by (simp add: started_by_def attach_state)

lemma with_var_other: "k' \<noteq> k \<Longrightarrow> with_var k v m k' = m k'"
  by (simp add: with_var_def split: option.splits)

lemma with_var_same:
  "with_var k v m k = (if truthy_str v then v else m k)"
  by (cases v) (simp_all add: with_var_def)

text \<open>\<^term>\<open>contains\<close> is the substring relation.\<close>

lemma contains_prefix: "prefix needle hay \<Longrightarrow> contains hay needle"
  by (cases hay) simp_all

lemma contains_append: "contains (xs @ needle @ ys) needle"
  by (induction xs) (simp_all add: contains_prefix)

lemma contains_iff: "contains hay needle \<longleftrightarrow> (\<exists>xs ys. hay = xs @ needle @ ys)"
proof
  show "contains hay needle \<Longrightarrow> \<exists>xs ys. hay = xs @ needle @ ys"
  proof (induction hay)
    case Nil
    then show ?case by simp
  next
    case (Cons c cs)
    show ?case
    proof (cases "prefix needle (c # cs)")
      case True
      then obtain ys where "c # cs = needle @ ys" by (auto simp: prefix_def)
      then have "c # cs = [] @ needle @ ys" by simp
      then show ?thesis by blast
    next
      case False
      with Cons.prems have "contains cs needle" by simp
      then obtain xs ys where "cs = xs @ needle @ ys" using Cons.IH by blast
      then have "c # cs = (c # xs) @ needle @ ys" by simp
      then show ?thesis by blast
    qed
  qed
next
  show "\<exists>xs ys. hay = xs @ needle @ ys \<Longrightarrow> contains hay needle"
    using contains_append by blast
qed

subsection \<open>Rendering integers\<close>


lemma str_int_300: "str_int 300 = ''300''"
  by (simp add: str_int_def str_nat.simps digit_char_def)

lemma str_int_2222: "str_int 2222 = ''2222''"
  by (simp add: str_int_def str_nat.simps digit_char_def)

lemma digit_val_digit_char: "d < 10 \<Longrightarrow> digit_val (digit_char d) = d"
proof -
  assume "d < 10"
  then have "d \<in> {0, 1, 2, 3, 4, 5, 6, 7, 8, 9}" by auto
  then show ?thesis by (auto simp: digit_char_def digit_val_def)
qed

lemma digit_char_is_digit: "d < 10 \<Longrightarrow> is_digit (digit_char d)"
proof -
  assume "d < 10"
  then have "d \<in> {0, 1, 2, 3, 4, 5, 6, 7, 8, 9}" by auto
  then show ?thesis by (auto simp: digit_char_def is_digit_def)
qed

lemma nat_of_digits_snoc: "nat_of_digits (ds @ [c]) = 10 * nat_of_digits ds + digit_val c"
  by (simp add: nat_of_digits_def)

lemma nat_of_digits_str_nat: "nat_of_digits (str_nat n) = n"
proof (induction n rule: str_nat.induct)
  case (1 n)
  show ?case
  proof (cases "n < 10")
    case True
    then show ?thesis
      by (simp add: str_nat.simps [of n] nat_of_digits_def digit_val_digit_char)
  next
    case False
    then have "nat_of_digits (str_nat n) = 10 * nat_of_digits (str_nat (n div 10)) + digit_val (digit_char (n mod 10))"
      by (simp add: str_nat.simps [of n] nat_of_digits_snoc)
    also have "\<dots> = 10 * (n div 10) + n mod 10"
      using False "1.IH" by (simp add: digit_val_digit_char)
    finally show ?thesis by simp
  qed
qed

lemma str_nat_digits: "str_nat n \<noteq> [] \<and> list_all is_digit (str_nat n)"
proof (induction n rule: str_nat.induct)
  case (1 n)
  show ?case
  proof (cases "n < 10")
    case True
    then show ?thesis by (simp add: str_nat.simps [of n] digit_char_is_digit)
  next
    case False
    then show ?thesis using "1.IH" by (simp add: str_nat.simps [of n] digit_char_is_digit)
  qed
qed

lemma str_nat_no_minus: "str_nat n = c # cs \<Longrightarrow> c \<noteq> CHR ''-''"
proof -
  assume "str_nat n = c # cs"
  with str_nat_digits [of n] have "is_digit c" by simp
  then show ?thesis by (auto simp: is_digit_def)
qed

lemma int_of_str_str_int: "int_of_str (str_int i) = i"
proof (cases "i < 0")
  case True
  then show ?thesis by (simp add: str_int_def nat_of_digits_str_nat)
next
  case False
  obtain c cs where cs: "str_nat (nat i) = c # cs"
    using str_nat_digits [of "nat i"] by (cases "str_nat (nat i)") auto
  then have "c \<noteq> CHR ''-''" by (rule str_nat_no_minus)
  moreover have "nat_of_digits (c # cs) = nat i"
    using nat_of_digits_str_nat [of "nat i"] cs by simp
  ultimately show ?thesis using False cs by (simp add: str_int_def)
qed

subsection \<open>The completion protocol\<close>

lemma split_at_marker_none:
  "\<forall>l \<in> set ls. \<not> marker_line marker l \<Longrightarrow> split_at_marker marker ls = None"
  by (induction ls) simp_all

lemma split_at_marker_found:
  "\<forall>l \<in> set before. \<not> marker_line marker l \<Longrightarrow> marker_line marker line \<Longrightarrow>
   split_at_marker marker (before @ line # rest) =
     Some (before, nat_of_digits (drop (length marker) line))"
  by (induction before) simp_all

lemma marker_line_exact: "ds \<noteq> [] \<Longrightarrow> list_all is_digit ds \<Longrightarrow> marker_line marker (marker @ ds)"
  by (simp add: marker_line_def)

lemma await_completion_skip:
  "\<forall>c \<in> set early. split_at_marker marker c = None \<Longrightarrow>
   await_completion marker (early @ later) = await_completion marker later"
  by (induction early) simp_all

section \<open>Properties of the client\<close>

text \<open>
  In the statements, \<open>spawn\<close> is the operating system with the \<^verbatim>\<open>sessh\<close> binary and \<open>loads\<close>
  is \<^verbatim>\<open>json.loads\<close>; both are arbitrary. ``The spawned process exits with \<open>p\<close>'' is
  \<open>spawn (started_by (perform spawn loads op s)) = Inr p\<close>: the child this very call started
  ran and did \<open>p\<close>.
\<close>

text \<open>
  \<^bold>\<open>C1, as stated, fails.\<close> The child exits with code 1, prints \<^verbatim>\<open>oops\<close> (not JSON) on stdout
  and \<^verbatim>\<open>Permission denied\<close> on stderr. The guard of the first \<^verbatim>\<open>raise\<close> asks for an empty
  stdout, so \<^verbatim>\<open>run("ls")\<close> raises the second error, \<^verbatim>\<open>Invalid JSON from sessh: oops\<close>, and
  the stderr text is nowhere in its message.
\<close>

theorem stderr_missing_counterexample:
  "sample_loads ''oops'' = None \<and>
   fst (run (child 1 ''oops'' ''Permission denied'') sample_loads ''ls''
          (fresh_state test_client Map.empty))
     = Inl (RuntimeError ''Invalid JSON from sessh: oops'') \<and>
   \<not> contains ''Invalid JSON from sessh: oops'' ''Permission denied''"
  by (simp add: run_def run_sessh_result child_def sample_loads_def)

text \<open>
  \<^bold>\<open>C1, amended.\<close> For every JSON-mode operation (\<^verbatim>\<open>open\<close>, \<^verbatim>\<open>run\<close>, \<^verbatim>\<open>logs\<close>, \<^verbatim>\<open>status\<close>,
  \<^verbatim>\<open>close\<close>), if the spawned process exits with a nonzero code and its stdout is not
  parseable JSON, the client raises a \<^verbatim>\<open>RuntimeError\<close>. Its message contains the process's
  stderr text when stdout is empty; when stdout is not empty the message is
  \<^verbatim>\<open>Invalid JSON from sessh: \<close> followed by the stdout text.
\<close>

theorem hard_failure_raises:
  assumes "spawn (started_by (perform spawn loads op s)) = Inr p"
    and "exit_code p \<noteq> 0"
    and "loads (out p) = None"
  shows "\<exists>msg. fst (perform spawn loads op s) = Inl (RuntimeError msg) \<and>
           (if out p = [] then contains msg (err p)
            else msg = ''Invalid JSON from sessh: '' @ out p)"
proof -
  have exit: "spawn (json_call s (op_name op) (op_args op)) = Inr p"
    using assms(1) by (simp add: started_by_perform)
  show ?thesis
  proof (cases "out p = []")
    case True
    define msg where "msg = ''sessh '' @ op_name op @ '' failed: '' @
      (if err p \<noteq> [] then err p else ''exit code '' @ str_int (exit_code p))"
    have raised: "fst (perform spawn loads op s) = Inl (RuntimeError msg)"
      using exit True assms(2) by (simp add: perform_run_sessh run_sessh_result msg_def)
    have "contains msg (err p)"
    proof (cases "err p = []")
      case True
      then show ?thesis by (simp add: contains_prefix)
    next
      case False
      then have "msg = (''sessh '' @ op_name op @ '' failed: '') @ err p @ []"
        by (simp add: msg_def)
      then show ?thesis by (simp only: contains_append)
    qed
    with raised True show ?thesis by auto
  next
    case False
    with exit assms(3) show ?thesis
      by (simp add: perform_run_sessh run_sessh_result)
  qed
qed

text \<open>
  An instance: \<^verbatim>\<open>run("ls")\<close> on a child that exits with 255, prints nothing and writes
  \<^verbatim>\<open>ssh: connect refused\<close> to stderr.
\<close>

theorem hard_failure_raises_witness:
  "fst (perform (child 255 [] ''ssh: connect refused'') sample_loads (Run ''ls'')
          (fresh_state test_client Map.empty))
     = Inl (RuntimeError ''sessh run failed: ssh: connect refused'') \<and>
   contains ''sessh run failed: ssh: connect refused'' ''ssh: connect refused''"
  using hard_failure_raises [of "child 255 [] ''ssh: connect refused''" sample_loads "Run ''ls''"
      "fresh_state test_client Map.empty" "\<lparr>exit_code = 255, out = [], err = ''ssh: connect refused''\<rparr>"]
  by (simp add: child_def sample_loads_def run_def run_sessh_result)

text \<open>
  \<^bold>\<open>C2.\<close> For every JSON-mode operation, whenever the stdout of the spawned process parses
  as JSON, whatever the exit code and whatever the parsed value (an object with
  \<^verbatim>\<open>ok:false\<close> included), the client returns the parsed value and raises nothing. The first
  hypothesis is a fact about \<^verbatim>\<open>json.loads\<close>, which rejects the empty document.
\<close>

theorem parseable_stdout_is_returned:
  assumes "loads [] = None"
    and "spawn (started_by (perform spawn loads op s)) = Inr p"
    and "loads (out p) = Some j"
  shows "fst (perform spawn loads op s) = Inr j"
proof -
  have exit: "spawn (json_call s (op_name op) (op_args op)) = Inr p"
    using assms(2) by (simp add: started_by_perform)
  from assms(1,3) have "out p \<noteq> []" by auto
  with exit assms(3) show ?thesis
    by (simp add: perform_run_sessh run_sessh_result)
qed

text \<open>
  An instance: the child exits with code 1 and prints an object with \<^verbatim>\<open>ok:false\<close>.
\<close>

theorem parseable_stdout_is_returned_witness:
  \<open>sample_loads [] = None \<and>
   fst (perform (child 1 ''{"ok":false,"op":"run"}'' ''command failed'') sample_loads (Run ''false'')
          (fresh_state test_client Map.empty))
     = Inr (JObject [(''ok'', JBool False), (''op'', JString ''run'')])\<close>
  using parseable_stdout_is_returned [of sample_loads "child 1 ''{\"ok\":false,\"op\":\"run\"}'' ''command failed''"
      "Run ''false''" "fresh_state test_client Map.empty"
      "\<lparr>exit_code = 1, out = ''{\"ok\":false,\"op\":\"run\"}'', err = ''command failed''\<rparr>"
      "JObject [(''ok'', JBool False), (''op'', JString ''run'')]"]
  by (simp add: child_def sample_loads_def)

text \<open>
  \<^bold>\<open>C3.\<close> Every operation invokes the binary with the arguments in the order
  \<^verbatim>\<open><operation> <alias> <user@host> [port]\<close>, followed by the arguments of the operation:
  none for \<^verbatim>\<open>open\<close>, \<^verbatim>\<open>status\<close>, \<^verbatim>\<open>close\<close> and \<^verbatim>\<open>attach\<close>; the separator \<^verbatim>\<open>--\<close> and then the
  command string for \<^verbatim>\<open>run(command)\<close>; the decimal rendering of \<open>N\<close> for \<^verbatim>\<open>logs(N)\<close>, which
  reads back as \<open>N\<close>.
\<close>

theorem argument_order:
  "argv (started_by (open spawn loads s)) =
     [sessh_bin (self s), ''open'', alias' (self s), host (self s)] @ port_args (self s) \<and>
   argv (started_by (run spawn loads command s)) =
     [sessh_bin (self s), ''run'', alias' (self s), host (self s)] @ port_args (self s) @
       [''--'', command] \<and>
   argv (started_by (logs spawn loads (Some n) s)) =
     [sessh_bin (self s), ''logs'', alias' (self s), host (self s)] @ port_args (self s) @
       [str_int n] \<and>
   int_of_str (str_int n) = n \<and>
   argv (started_by (status spawn loads s)) =
     [sessh_bin (self s), ''status'', alias' (self s), host (self s)] @ port_args (self s) \<and>
   argv (started_by (close spawn loads s)) =
     [sessh_bin (self s), ''close'', alias' (self s), host (self s)] @ port_args (self s) \<and>
   argv (started_by (attach spawn s)) =
     [sessh_bin (self s), ''attach'', alias' (self s), host (self s)] @ port_args (self s)"
  using started_by_perform [of spawn loads Open s]
    started_by_perform [of spawn loads "Run command" s]
    started_by_perform [of spawn loads "Logs (Some n)" s]
    started_by_perform [of spawn loads Status s]
    started_by_perform [of spawn loads Close s]
  by (simp add: started_by_attach json_call_def attach_call_def int_of_str_str_int)

text \<open>
  \<^bold>\<open>C4, as stated, fails.\<close> \<^verbatim>\<open>attach\<close> starts from a copy of \<^verbatim>\<open>os.environ\<close> and removes nothing:
  when the calling process itself runs with \<^verbatim>\<open>SESSH_JSON=1\<close>, so does the child.
\<close>

theorem attach_inherits_json_counterexample:
  "env (started_by (attach (child 0 [] []) (fresh_state test_client [''SESSH_JSON'' \<mapsto> ''1''])))
     ''SESSH_JSON'' = Some ''1''"
  by (simp add: started_by_attach attach_call_def attach_env_def with_var_def
      fresh_state_def test_client_def init_def)

text \<open>
  \<^bold>\<open>C4, amended.\<close> \<^verbatim>\<open>attach\<close> produces no structured result (it returns \<^verbatim>\<open>None\<close> once the
  child has run, and raises only what starting the child raises), does not itself set
  \<^verbatim>\<open>SESSH_JSON\<close> (the child has it exactly as the calling process's environment does, so
  it is unset whenever the caller's is), and does not capture the child's stdout and
  stderr.
\<close>

theorem attach_hands_terminal_through:
  "fst (attach spawn s) =
     (case spawn (started_by (attach spawn s)) of Inl e \<Rightarrow> Inl e | Inr p \<Rightarrow> Inr ()) \<and>
   env (started_by (attach spawn s)) ''SESSH_JSON'' = dicts s Environ ''SESSH_JSON'' \<and>
   capture_output (started_by (attach spawn s)) = False"
  by (simp add: started_by_attach attach_result attach_call_def attach_env_def with_var_other)

text \<open>
  \<^bold>\<open>C5, as stated, fails.\<close> The child's environment starts as a copy of \<^verbatim>\<open>os.environ\<close>: with
  no identity configured and \<^verbatim>\<open>SESSH_IDENTITY\<close> set in the calling process, the child of
  \<^verbatim>\<open>open\<close> has \<^verbatim>\<open>SESSH_IDENTITY\<close> set all the same.
\<close>

theorem json_env_counterexample:
  "identity test_client = None \<and>
   env (started_by (open (child 0 [] []) sample_loads
          (fresh_state test_client [''SESSH_IDENTITY'' \<mapsto> ''/old/key'']))) ''SESSH_IDENTITY''
     = Some ''/old/key''"
  by (simp add: started_by_def open_def run_sessh_state json_call_def json_env_def with_var_def
      fresh_state_def test_client_def init_def)

text \<open>
  \<^bold>\<open>C5, amended.\<close> For every JSON-mode operation the child's environment has
  \<^verbatim>\<open>SESSH_JSON\<close> set to \<^verbatim>\<open>1\<close>; it has \<^verbatim>\<open>SESSH_IDENTITY\<close> set to the client's identity path
  when an identity (a non-empty string) was configured, and otherwise has \<^verbatim>\<open>SESSH_IDENTITY\<close>
  as the calling process's environment has it, set or unset; likewise \<^verbatim>\<open>SESSH_PROXYJUMP\<close>
  and the proxy-jump spec.
\<close>

theorem json_child_environment:
  "env (started_by (perform spawn loads op s)) ''SESSH_JSON'' = Some ''1'' \<and>
   (truthy_str (identity (self s)) \<longrightarrow>
      env (started_by (perform spawn loads op s)) ''SESSH_IDENTITY'' = identity (self s)) \<and>
   (\<not> truthy_str (identity (self s)) \<longrightarrow>
      env (started_by (perform spawn loads op s)) ''SESSH_IDENTITY'' =
        dicts s Environ ''SESSH_IDENTITY'') \<and>
   (truthy_str (proxyjump (self s)) \<longrightarrow>
      env (started_by (perform spawn loads op s)) ''SESSH_PROXYJUMP'' = proxyjump (self s)) \<and>
   (\<not> truthy_str (proxyjump (self s)) \<longrightarrow>
      env (started_by (perform spawn loads op s)) ''SESSH_PROXYJUMP'' =
        dicts s Environ ''SESSH_PROXYJUMP'')"
  by (simp add: started_by_perform json_call_def json_env_def with_var_other with_var_same)

text \<open>
  Instances: a client with both options given, and the test client in an environment that
  already holds \<^verbatim>\<open>SESSH_PROXYJUMP\<close>.
\<close>

theorem json_child_environment_witness:
  "env (started_by (perform (child 0 [] []) sample_loads Open (fresh_state full_client Map.empty)))
      ''SESSH_JSON'' = Some ''1'' \<and>
   env (started_by (perform (child 0 [] []) sample_loads Open (fresh_state full_client Map.empty)))
      ''SESSH_IDENTITY'' = Some ''/home/u/.ssh/id_ed25519'' \<and>
   env (started_by (perform (child 0 [] []) sample_loads Open (fresh_state full_client Map.empty)))
      ''SESSH_PROXYJUMP'' = Some ''jump@bastion'' \<and>
   env (started_by (perform (child 0 [] []) sample_loads Open
          (fresh_state test_client [''SESSH_PROXYJUMP'' \<mapsto> ''old@jump''])))
      ''SESSH_IDENTITY'' = None \<and>
   env (started_by (perform (child 0 [] []) sample_loads Open
          (fresh_state test_client [''SESSH_PROXYJUMP'' \<mapsto> ''old@jump''])))
      ''SESSH_PROXYJUMP'' = Some ''old@jump''"
  using json_child_environment [of "child 0 [] []" sample_loads Open "fresh_state full_client Map.empty"]
    json_child_environment [of "child 0 [] []" sample_loads Open
      "fresh_state test_client [''SESSH_PROXYJUMP'' \<mapsto> ''old@jump'']"]
  by (simp add: fresh_state_def full_client_def test_client_def init_def)

text \<open>
  \<^bold>\<open>C6.\<close> The target configuration is immutable once constructed: after each of
  \<^verbatim>\<open>open\<close>, \<^verbatim>\<open>run\<close>, \<^verbatim>\<open>logs\<close>, \<^verbatim>\<open>status\<close>, \<^verbatim>\<open>close\<close> and \<^verbatim>\<open>attach\<close>, whatever the child
  does and whether the method returns or raises, the client object is the one it was, so
  \<^verbatim>\<open>alias\<close>, \<^verbatim>\<open>host\<close>, \<^verbatim>\<open>port\<close>, \<^verbatim>\<open>sessh_bin\<close>, \<^verbatim>\<open>identity\<close> and \<^verbatim>\<open>proxyjump\<close> are unchanged.
\<close>

theorem target_immutable:
  "self (snd (perform spawn loads op s)) = self s \<and> self (snd (attach spawn s)) = self s"
  by (simp add: perform_run_sessh run_sessh_state attach_state)

text \<open>
  \<^bold>\<open>C8.\<close> No operation mutates the calling process's own environment: the child's
  environment is built in a copy, a different object, so the dictionary at
  \<^verbatim>\<open>os.environ\<close> is the same before and after every \<^verbatim>\<open>open\<close>, \<^verbatim>\<open>run\<close>, \<^verbatim>\<open>logs\<close>,
  \<^verbatim>\<open>status\<close>, \<^verbatim>\<open>close\<close> and \<^verbatim>\<open>attach\<close>.
\<close>

text \<open>
  \<^bold>\<open>C7.\<close> Marker safety, on the protocol as the specification describes it. The output of
  the command (\<open>echoed\<close>) may hold any lines that resemble the marker, as long as none is
  the marker immediately followed by digits and nothing else. Then no capture taken while
  only such lines are on screen triggers completion, the output alone does not either,
  and the first capture that shows the real marker line ends the wait with the whole
  output, every marker-like line included verbatim, and the exit code read from the
  digits.
\<close>

theorem marker_safety:
  assumes "\<forall>l \<in> set echoed. \<not> marker_line marker l"
    and "\<forall>c \<in> set early. \<forall>l \<in> set c. \<not> marker_line marker l"
    and "ds \<noteq> []" and "list_all is_digit ds"
  shows "(\<forall>c \<in> set early. split_at_marker marker c = None) \<and>
         split_at_marker marker echoed = None \<and>
         await_completion marker (early @ (echoed @ (marker @ ds) # rest) # later) =
           Inr (echoed, nat_of_digits ds)"
proof -
  have early: "\<forall>c \<in> set early. split_at_marker marker c = None"
    using assms(2) by (simp add: split_at_marker_none)
  have "split_at_marker marker (echoed @ (marker @ ds) # rest) = Some (echoed, nat_of_digits ds)"
    using split_at_marker_found [OF assms(1) marker_line_exact [OF assms(3,4)]] by simp
  then have "await_completion marker ((echoed @ (marker @ ds) # rest) # later) =
      Inr (echoed, nat_of_digits ds)"
    by simp
  with early show ?thesis
    using assms(1) by (simp add: await_completion_skip split_at_marker_none)
qed

text \<open>
  An instance with marker \<^verbatim>\<open>DONE17:\<close>: the marker inside a line, the marker with no digits
  and the marker followed by digits and more text are all output; the line \<^verbatim>\<open>DONE17:2\<close>
  ends the wait with exit code 2.
\<close>

theorem marker_safety_witness:
  "await_completion ''DONE17:''
     [[''say DONE17:0''], [''say DONE17:0'', ''DONE17:''],
      [''say DONE17:0'', ''DONE17:'', ''DONE17:0 files'', ''DONE17:2'', ''$ '']] =
     Inr ([''say DONE17:0'', ''DONE17:'', ''DONE17:0 files''], 2)"
  using marker_safety [of "[''say DONE17:0'', ''DONE17:'', ''DONE17:0 files'']" "''DONE17:''"
      "[[''say DONE17:0''], [''say DONE17:0'', ''DONE17:'']]" "''2''" "[''$ '']" "[]"]
  by (simp add: marker_line_def is_digit_def nat_of_digits_def digit_val_def)

text \<open>
  \<^bold>\<open>C8.\<close> No operation mutates the calling process's own environment: the child's
  environment is built in a copy, a different object, so the dictionary at
  \<^verbatim>\<open>os.environ\<close> is the same before and after every \<^verbatim>\<open>open\<close>, \<^verbatim>\<open>run\<close>, \<^verbatim>\<open>logs\<close>,
  \<^verbatim>\<open>status\<close>, \<^verbatim>\<open>close\<close> and \<^verbatim>\<open>attach\<close>.
\<close>

theorem os_environ_untouched:
  "dicts (snd (perform spawn loads op s)) Environ = dicts s Environ \<and>
   dicts (snd (attach spawn s)) Environ = dicts s Environ"
  by (simp add: perform_run_sessh run_sessh_state attach_state)

text \<open>
  \<^bold>\<open>C3.\<close> Every operation invokes the binary with the arguments in the order
  \<^verbatim>\<open><operation> <alias> <user@host> [port]\<close>, followed by the arguments of the operation:
  none for \<^verbatim>\<open>open\<close>, \<^verbatim>\<open>status\<close>, \<^verbatim>\<open>close\<close> and \<^verbatim>\<open>attach\<close>; the separator \<^verbatim>\<open>--\<close> and then the
  command string for \<^verbatim>\<open>run(command)\<close>; the decimal rendering of \<open>N\<close> for \<^verbatim>\<open>logs(N)\<close>, which
  reads back as \<open>N\<close>.
\<close>

text \<open>
  \<^bold>\<open>C9.\<close> The port argument is appended exactly when the configured port is truthy, for
  the JSON-mode operations and for \<^verbatim>\<open>attach\<close>: a port that is an integer other than zero
  follows the host in its decimal rendering, and with \<^verbatim>\<open>port=None\<close> or \<^verbatim>\<open>port=0\<close> the
  operation's own arguments follow the host directly.
\<close>

theorem port_exactly_when_truthy:
  "(truthy_int (port (self s)) \<longrightarrow>
      (\<exists>p. port (self s) = Some p \<and>
        argv (started_by (perform spawn loads op s)) =
          [sessh_bin (self s), op_name op, alias' (self s), host (self s), str_int p] @ op_args op \<and>
        argv (started_by (attach spawn s)) =
          [sessh_bin (self s), ''attach'', alias' (self s), host (self s), str_int p])) \<and>
   (port (self s) = None \<or> port (self s) = Some 0 \<longrightarrow>
      argv (started_by (perform spawn loads op s)) =
        [sessh_bin (self s), op_name op, alias' (self s), host (self s)] @ op_args op \<and>
      argv (started_by (attach spawn s)) =
        [sessh_bin (self s), ''attach'', alias' (self s), host (self s)])"
  by (cases "port (self s)")
    (auto simp add: started_by_perform started_by_attach json_call_def attach_call_def port_args_def)

text \<open>
  Instances: port 2222 for \<^verbatim>\<open>run\<close> and \<^verbatim>\<open>attach\<close>, no port for \<^verbatim>\<open>status\<close>, and port 0 for
  \<^verbatim>\<open>attach\<close>.
\<close>

theorem port_exactly_when_truthy_witness:
  "argv (started_by (perform (child 0 [] []) sample_loads (Run ''ls'') (fresh_state full_client Map.empty))) =
     [''/opt/sessh'', ''run'', ''box'', ''root@localhost'', ''2222'', ''--'', ''ls''] \<and>
   argv (started_by (attach (child 0 [] []) (fresh_state full_client Map.empty))) =
     [''/opt/sessh'', ''attach'', ''box'', ''root@localhost'', ''2222''] \<and>
   argv (started_by (perform (child 0 [] []) sample_loads Status (fresh_state test_client Map.empty))) =
     [''sessh'', ''status'', ''test'', ''user@example.com''] \<and>
   argv (started_by (attach (child 0 [] [])
       (fresh_state (init ''test'' ''user@example.com'' (Some 0) None None None) Map.empty))) =
     [''sessh'', ''attach'', ''test'', ''user@example.com'']"
  using port_exactly_when_truthy [of "fresh_state full_client Map.empty" "child 0 [] []" sample_loads "Run ''ls''"]
    port_exactly_when_truthy [of "fresh_state test_client Map.empty" "child 0 [] []" sample_loads Status]
    port_exactly_when_truthy [of "fresh_state (init ''test'' ''user@example.com'' (Some 0) None None None) Map.empty"
      "child 0 [] []" sample_loads Status]
  by (simp add: fresh_state_def full_client_def test_client_def init_def str_int_2222)

text \<open>
  \<^bold>\<open>C10.\<close> \<^verbatim>\<open>logs\<close> called with no argument requests exactly 300 lines: for every client and
  every state, \<^verbatim>\<open>logs()\<close> and \<^verbatim>\<open>logs(300)\<close> are the same call (same child process, same
  result, same state afterwards), and the command line of \<^verbatim>\<open>logs()\<close> ends in \<^verbatim>\<open>300\<close>.
\<close>

theorem logs_default_is_300:
  "logs spawn loads None s = logs spawn loads (Some 300) s \<and>
   argv (started_by (logs spawn loads None s)) =
     [sessh_bin (self s), ''logs'', alias' (self s), host (self s)] @ port_args (self s) @ [''300'']"
proof -
  have "started_by (logs spawn loads None s) = json_call s ''logs'' [str_int 300]"
    using started_by_perform [of spawn loads "Logs None" s] by simp
  then show ?thesis
    by (simp add: logs_def json_call_def str_int_300)
qed

text \<open>
  \<^bold>\<open>C6.\<close> The target configuration is immutable once constructed: after each of
  \<^verbatim>\<open>open\<close>, \<^verbatim>\<open>run\<close>, \<^verbatim>\<open>logs\<close>, \<^verbatim>\<open>status\<close>, \<^verbatim>\<open>close\<close> and \<^verbatim>\<open>attach\<close>, whatever the child
  does and whether the method returns or raises, the client object is the one it was, so
  \<^verbatim>\<open>alias\<close>, \<^verbatim>\<open>host\<close>, \<^verbatim>\<open>port\<close>, \<^verbatim>\<open>sessh_bin\<close>, \<^verbatim>\<open>identity\<close> and \<^verbatim>\<open>proxyjump\<close> are unchanged.
\<close>

end
